theory Spec2Isabelle
  imports Main "HOL-Library.Word"
begin

section \<open>JavaScript values\<close>

text \<open>
  \<^verbatim>\<open>findNodeHandle(componentOrHandle: any): any\<close> takes and returns arbitrary JavaScript
  values. A number is an IEEE 754 double, kept as its 64 bits; an object or a function is a
  reference into the heap. Equality of \<open>jsval\<close> is identity of values (\<open>Object.is\<close>).
\<close>

type_synonym ref = nat

datatype jsval =
    JUndefined
  | JNull
  | JBoolean bool
  | JNumber "64 word"
  | JString string
  | JSymbol nat
  | JObject ref
  | JFunction ref

text \<open>The \<^verbatim>\<open>typeof\<close> operator.\<close>

fun typeof :: "jsval \<Rightarrow> string" where
  "typeof JUndefined = ''undefined''"
| "typeof JNull = ''object''"
| "typeof (JBoolean b) = ''boolean''"
| "typeof (JNumber d) = ''number''"
| "typeof (JString s) = ''string''"
| "typeof (JSymbol n) = ''symbol''"
| "typeof (JObject r) = ''object''"
| "typeof (JFunction r) = ''function''"

text \<open>
  A double is falsy when it is \<open>+0\<close>, \<open>-0\<close> (all bits but the sign are zero) or a NaN
  (exponent all ones, mantissa not zero).
\<close>

definition number_is_falsy :: "64 word \<Rightarrow> bool" where
  "number_is_falsy d = (take_bit 63 d = 0 \<or> 0x7FF0000000000000 < take_bit 63 d)"

text \<open>Truthiness: what \<^verbatim>\<open>if (v)\<close>, \<^verbatim>\<open>v || w\<close> and fbjs's \<^verbatim>\<open>!condition\<close> test.\<close>

fun ToBoolean :: "jsval \<Rightarrow> bool" where
  "ToBoolean JUndefined = False"
| "ToBoolean JNull = False"
| "ToBoolean (JBoolean b) = b"
| "ToBoolean (JNumber d) = (\<not> number_is_falsy d)"
| "ToBoolean (JString s) = (s \<noteq> [])"
| "ToBoolean (JSymbol n) = True"
| "ToBoolean (JObject r) = True"
| "ToBoolean (JFunction r) = True"

section \<open>Objects and the heap\<close>

text \<open>
  An ordinary object with data properties: \<open>own\<close> are its own enumerable properties in the
  order \<^verbatim>\<open>Object.keys\<close> reports them, \<open>inherited\<close> what a property read finds further up
  its prototype chain (the \<^verbatim>\<open>render\<close> method of a class component lives there).
  Accessor properties, proxies and frozen objects are not modelled.
\<close>

record jsobject =
  own :: "(string \<times> jsval) list"
  inherited :: "string \<rightharpoonup> jsval"

type_synonym heap = "ref \<Rightarrow> jsobject"

datatype fmtarg = AString string | AStrings "string list"

datatype exn =
    TypeError
  | Invariant_Violation string "fmtarg list"
  | Thrown jsval

definition lookup :: "jsobject \<Rightarrow> string \<Rightarrow> jsval" where
  "lookup obj p =
     (case map_of (own obj) p of
        Some v \<Rightarrow> v
      | None \<Rightarrow> (case inherited obj p of Some v \<Rightarrow> v | None \<Rightarrow> JUndefined))"

text \<open>
  \<^verbatim>\<open>v.p\<close>: reading a property of \<^verbatim>\<open>null\<close> or \<^verbatim>\<open>undefined\<close> throws a TypeError. The
  only names this module reads are \<^verbatim>\<open>tag\<close>, \<^verbatim>\<open>stateNode\<close>, \<^verbatim>\<open>_warnedAboutRefsInRender\<close>
  and \<^verbatim>\<open>render\<close>, none of which the wrapper prototypes of the primitives define.
\<close>

fun Get :: "heap \<Rightarrow> jsval \<Rightarrow> string \<Rightarrow> exn + jsval" where
  "Get h JUndefined p = Inl TypeError"
| "Get h JNull p = Inl TypeError"
| "Get h (JObject r) p = Inr (lookup (h r) p)"
| "Get h (JFunction r) p = Inr (lookup (h r) p)"
| "Get h v p = Inr JUndefined"

fun put_own :: "string \<Rightarrow> jsval \<Rightarrow> (string \<times> jsval) list \<Rightarrow> (string \<times> jsval) list" where
  "put_own p v [] = [(p, v)]"
| "put_own p v ((q, w) # ps) = (if q = p then (p, v) # ps else (q, w) # put_own p v ps)"

text \<open>
  \<^verbatim>\<open>v.p = w\<close> in strict mode (the module starts with \<^verbatim>\<open>'use strict'\<close>): a TypeError on
  \<^verbatim>\<open>null\<close>, \<^verbatim>\<open>undefined\<close> and on every primitive; on an object the own property is
  overwritten, or created after the existing ones.
\<close>

fun Put :: "heap \<Rightarrow> jsval \<Rightarrow> string \<Rightarrow> jsval \<Rightarrow> exn + heap" where
  "Put h (JObject r) p w = Inr (h(r := (h r)\<lparr>own := put_own p w (own (h r))\<rparr>))"
| "Put h (JFunction r) p w = Inr (h(r := (h r)\<lparr>own := put_own p w (own (h r))\<rparr>))"
| "Put h v p w = Inl TypeError"

text \<open>\<^verbatim>\<open>p in v\<close>: a TypeError unless \<^verbatim>\<open>v\<close> is an object.\<close>

fun In :: "heap \<Rightarrow> string \<Rightarrow> jsval \<Rightarrow> exn + bool" where
  "In h p (JObject r) = Inr (map_of (own (h r)) p \<noteq> None \<or> inherited (h r) p \<noteq> None)"
| "In h p (JFunction r) = Inr (map_of (own (h r)) p \<noteq> None \<or> inherited (h r) p \<noteq> None)"
| "In h p v = Inl TypeError"

fun decimal :: "nat \<Rightarrow> string" where
  "decimal n =
     (if n < 10 then [''0123456789'' ! n]
      else decimal (n div 10) @ [''0123456789'' ! (n mod 10)])"

declare decimal.simps [simp del]

text \<open>
  \<^verbatim>\<open>Object.keys(v)\<close> (ECMAScript 2015): a TypeError on \<^verbatim>\<open>null\<close> and \<^verbatim>\<open>undefined\<close>, the
  indices of a string, no key for another primitive, the own enumerable keys of an object.
\<close>

fun Object_keys :: "heap \<Rightarrow> jsval \<Rightarrow> exn + string list" where
  "Object_keys h JUndefined = Inl TypeError"
| "Object_keys h JNull = Inl TypeError"
| "Object_keys h (JString s) = Inr (map decimal [0..<length s])"
| "Object_keys h (JObject r) = Inr (map fst (own (h r)))"
| "Object_keys h (JFunction r) = Inr (map fst (own (h r)))"
| "Object_keys h v = Inr []"

section \<open>The module's state and surroundings\<close>

text \<open>
  The two strategy slots are the module's own variables (\<^verbatim>\<open>let injectedFindNode;\<close>,
  \<^verbatim>\<open>let injectedFindRootNodeID;\<close>): \<open>None\<close> is \<^verbatim>\<open>undefined\<close>, the value before any
  injection. A strategy is taken as a function of its argument that returns or throws.
  \<open>ReactCurrentOwner_current\<close> is \<^verbatim>\<open>ReactCurrentOwner.current\<close>, of type
  \<^verbatim>\<open>ReactInstance | Fiber | null\<close>.
\<close>

type_synonym strategy = "jsval \<Rightarrow> exn + jsval"

record state =
  injectedFindNode :: "strategy option"
  injectedFindRootNodeID :: "strategy option"
  ReactCurrentOwner_current :: "ref option"
  ReactInstanceMap :: "jsval \<rightharpoonup> jsval"
  heap :: heap

text \<open>
  \<open>DEV\<close> is the build flag \<^verbatim>\<open>__DEV__\<close>; \<^verbatim>\<open>getComponentName\<close> is required from another
  module and taken as a parameter (it returns a name or \<^verbatim>\<open>null\<close>).
\<close>

record env =
  DEV :: bool
  getComponentName :: "ref \<Rightarrow> string option"

text \<open>What a call does besides returning: the warnings it prints and the calls it makes.\<close>

datatype event =
    Warned string "string list"
  | InstanceMapGet jsval
  | CallFindNode jsval
  | CallFindRootNodeID jsval

record run =
  outcome :: "exn + jsval"
  events :: "event list"
  final :: state

text \<open>
  Modelled from the spec: \<^verbatim>\<open>ReactInstanceMap\<close> is not among the sources; the glossary calls
  it the reconciler's internal instance map, which associates a composite component with its
  internal instance. \<^verbatim>\<open>ReactInstanceMap.get\<close> of a key without an entry is \<^verbatim>\<open>undefined\<close>.
\<close>

definition ReactInstanceMap_get :: "state \<Rightarrow> jsval \<Rightarrow> jsval" where
  "ReactInstanceMap_get s key = (case ReactInstanceMap s key of None \<Rightarrow> JUndefined | Some i \<Rightarrow> i)"

text \<open>
  \<^verbatim>\<open>fbjs/lib/warning\<close> and \<^verbatim>\<open>fbjs/lib/invariant\<close> are library functions:
  \<^verbatim>\<open>warning(condition, format, ...args)\<close> prints when the condition is falsy,
  \<^verbatim>\<open>invariant(condition, format, ...args)\<close> throws an Invariant Violation with that
  format and those arguments when the condition is falsy.
\<close>

definition warning :: "jsval \<Rightarrow> string \<Rightarrow> string list \<Rightarrow> event list" where
  "warning condition format args = (if ToBoolean condition then [] else [Warned format args])"

definition invariant :: "bool \<Rightarrow> string \<Rightarrow> fmtarg list \<Rightarrow> exn + unit" where
  "invariant condition format args =
     (if condition then Inr () else Inl (Invariant_Violation format args))"

text \<open>Calling the value of a slot: calling \<^verbatim>\<open>undefined\<close> throws a TypeError.\<close>

fun call :: "strategy option \<Rightarrow> jsval \<Rightarrow> exn + jsval" where
  "call None v = Inl TypeError"
| "call (Some f) v = f v"

definition refs_in_render_format :: string where
  "refs_in_render_format =
     ''%s is accessing findNodeHandle inside its render(). '' @
     ''render() should be a pure function of props and state. It should '' @
     ''never access something that requires stale data from the previous '' @
     ''render, such as refs. Move this logic to componentDidMount and '' @
     ''componentDidUpdate instead.''"

definition not_a_component_format :: string where
  "not_a_component_format =
     ''findNodeHandle(...): Argument is not a component '' @ ''(type: %s, keys: %s)''"

definition unmounted_format :: string where
  "unmounted_format =
     ''findNodeHandle(...): Unable to find node handle for unmounted '' @ ''component.''"

section \<open>findNodeHandle\<close>

text \<open>
  Lines 62 to 87, the development-mode block. \<open>flag_holder\<close> is the value whose
  \<^verbatim>\<open>_warnedAboutRefsInRender\<close> the block reads (lines 67 to 69) and writes (lines 81 to
  85): \<^verbatim>\<open>owner.stateNode\<close> when \<^verbatim>\<open>typeof owner.tag === 'number'\<close>, the owner itself
  otherwise. The \<^verbatim>\<open>stateNode\<close> of a fiber is the instance of a class component, and
  \<^verbatim>\<open>null\<close> for a functional component, which has no instance. The block ends with
  \<open>Some e\<close> when it throws \<open>e\<close>.
\<close>

definition isFiber :: "heap \<Rightarrow> ref \<Rightarrow> bool" where
  "isFiber h owner = (typeof (lookup (h owner) ''tag'') = ''number'')"

definition flag_holder :: "heap \<Rightarrow> ref \<Rightarrow> jsval" where
  "flag_holder h owner =
     (if isFiber h owner then lookup (h owner) ''stateNode'' else JObject owner)"

definition component_name :: "env \<Rightarrow> ref \<Rightarrow> string" where
  "component_name env owner =
     (case getComponentName env owner of
        None \<Rightarrow> ''A component''
      | Some n \<Rightarrow> if n = [] then ''A component'' else n)"

definition dev_block :: "env \<Rightarrow> state \<Rightarrow> exn option \<times> event list \<times> state" where
  "dev_block env s =
     (if DEV env then
        (case ReactCurrentOwner_current s of
           None \<Rightarrow> (None, [], s)
         | Some owner \<Rightarrow>
             (case Get (heap s) (flag_holder (heap s) owner) ''_warnedAboutRefsInRender'' of
                Inl e \<Rightarrow> (Some e, [], s)
              | Inr warnedAboutRefsInRender \<Rightarrow>
                  (let ws = warning warnedAboutRefsInRender refs_in_render_format
                              [component_name env owner]
                   in case Put (heap s) (flag_holder (heap s) owner)
                             ''_warnedAboutRefsInRender'' (JBoolean True) of
                        Inl e \<Rightarrow> (Some e, ws, s)
                      | Inr h' \<Rightarrow> (None, ws, s\<lparr>heap := h'\<rparr>))))
      else (None, [], s))"

text \<open>
  Lines 108 to 124: the condition of the first \<^verbatim>\<open>invariant\<close>, with the short circuits of
  \<^verbatim>\<open>&&\<close> and \<^verbatim>\<open>||\<close>, and the two \<^verbatim>\<open>invariant\<close> calls with their arguments evaluated
  from left to right. Falling off the end of the function would return \<^verbatim>\<open>undefined\<close>.
\<close>

definition is_native :: "heap \<Rightarrow> jsval \<Rightarrow> exn + bool" where
  "is_native h component =
     (if typeof component = ''object'' then
        (case In h ''_rootNodeID'' component of
           Inl e \<Rightarrow> Inl e
         | Inr True \<Rightarrow> Inr True
         | Inr False \<Rightarrow> In h ''_nativeTag'' component)
      else Inr False)"

definition is_composite :: "heap \<Rightarrow> jsval \<Rightarrow> exn + bool" where
  "is_composite h component =
     (case Get h component ''render'' of
        Inl e \<Rightarrow> Inl e
      | Inr render \<Rightarrow>
          if render \<noteq> JNull \<and> render \<noteq> JUndefined then Inr (typeof render = ''function'')
          else Inr False)"

definition is_component :: "heap \<Rightarrow> jsval \<Rightarrow> exn + bool" where
  "is_component h component =
     (case is_native h component of
        Inl e \<Rightarrow> Inl e
      | Inr True \<Rightarrow> Inr True
      | Inr False \<Rightarrow> is_composite h component)"

definition not_found :: "heap \<Rightarrow> jsval \<Rightarrow> exn + jsval" where
  "not_found h component =
     (case is_component h component of
        Inl e \<Rightarrow> Inl e
      | Inr c \<Rightarrow>
          (case Object_keys h component of
             Inl e \<Rightarrow> Inl e
           | Inr ks \<Rightarrow>
               (case invariant c not_a_component_format
                       [AString (typeof component), AStrings ks] of
                  Inl e \<Rightarrow> Inl e
                | Inr u \<Rightarrow>
                    (case invariant False unmounted_format [] of
                       Inl e \<Rightarrow> Inl e
                     | Inr u \<Rightarrow> Inr JUndefined))))"

text \<open>Lines 96 to 126: the two lookup branches, for an argument that is a component.\<close>

definition resolve :: "state \<Rightarrow> jsval \<Rightarrow> (exn + jsval) \<times> event list" where
  "resolve s component =
     (let internalInstance = ReactInstanceMap_get s component in
      if ToBoolean internalInstance then
        (call (injectedFindNode s) internalInstance,
         [InstanceMapGet component, CallFindNode internalInstance])
      else
        (case call (injectedFindRootNodeID s) component of
           Inl e \<Rightarrow> Inl e
         | Inr rootNodeID \<Rightarrow>
             if ToBoolean rootNodeID then Inr rootNodeID
             else not_found (heap s) component,
         [InstanceMapGet component, CallFindRootNodeID component]))"

definition findNodeHandle :: "env \<Rightarrow> state \<Rightarrow> jsval \<Rightarrow> run" where
  "findNodeHandle env s componentOrHandle =
     (case dev_block env s of
        (Some e, ws, s') \<Rightarrow> \<lparr>outcome = Inl e, events = ws, final = s'\<rparr>
      | (None, ws, s') \<Rightarrow>
          if componentOrHandle = JNull \<or> componentOrHandle = JUndefined then
            \<lparr>outcome = Inr JNull, events = ws, final = s'\<rparr>
          else if typeof componentOrHandle = ''number'' then
            \<lparr>outcome = Inr componentOrHandle, events = ws, final = s'\<rparr>
          else
            (case resolve s' componentOrHandle of
               (res, calls) \<Rightarrow> \<lparr>outcome = res, events = ws @ calls, final = s'\<rparr>))"

text \<open>Lines 130 to 137: \<^verbatim>\<open>findNodeHandle.injection\<close>.\<close>

definition injectFindNode :: "strategy \<Rightarrow> state \<Rightarrow> state" where
  "injectFindNode findNode s = s\<lparr>injectedFindNode := Some findNode\<rparr>"

definition injectFindRootNodeID :: "strategy \<Rightarrow> state \<Rightarrow> state" where
  "injectFindRootNodeID findRootNodeID s = s\<lparr>injectedFindRootNodeID := Some findRootNodeID\<rparr>"

section \<open>Sequences of calls\<close>

text \<open>
  What happens to the module between two calls of \<^verbatim>\<open>findNodeHandle\<close>: the renderer injects
  a strategy, or the reconciler makes another component the current owner.
\<close>

datatype action =
    Call jsval
  | InjectFindNode strategy
  | InjectFindRootNodeID strategy
  | SetCurrentOwner "ref option"

fun step :: "env \<Rightarrow> state \<Rightarrow> action \<Rightarrow> state" where
  "step env s (Call c) = final (findNodeHandle env s c)"
| "step env s (InjectFindNode f) = injectFindNode f s"
| "step env s (InjectFindRootNodeID g) = injectFindRootNodeID g s"
| "step env s (SetCurrentOwner ow) = s\<lparr>ReactCurrentOwner_current := ow\<rparr>"

fun exec :: "env \<Rightarrow> state \<Rightarrow> action list \<Rightarrow> state" where
  "exec env s [] = s"
| "exec env s (a # as) = exec env (step env s a) as"

text \<open>The strategies in force after a sequence of actions: the ones injected last.\<close>

fun latest_findNode :: "strategy option \<Rightarrow> action list \<Rightarrow> strategy option" where
  "latest_findNode cur [] = cur"
| "latest_findNode cur (InjectFindNode f # as) = latest_findNode (Some f) as"
| "latest_findNode cur (a # as) = latest_findNode cur as"

fun latest_findRootNodeID :: "strategy option \<Rightarrow> action list \<Rightarrow> strategy option" where
  "latest_findRootNodeID cur [] = cur"
| "latest_findRootNodeID cur (InjectFindRootNodeID g # as) = latest_findRootNodeID (Some g) as"
| "latest_findRootNodeID cur (a # as) = latest_findRootNodeID cur as"

section \<open>Observable outcomes\<close>

text \<open>
  The four outcomes of a call with argument \<open>c\<close> in state \<open>s\<close>. A lookup strategy
  produces \<open>v\<close> for \<open>c\<close> when \<^verbatim>\<open>findNode\<close>, applied to the internal instance of \<open>c\<close>,
  returns \<open>v\<close>, or when \<open>c\<close> has no internal instance and \<^verbatim>\<open>findRootNodeID\<close>, applied to
  \<open>c\<close>, returns \<open>v\<close>.
\<close>

datatype observable = ReturnsNull | ReturnsInput | ReturnsLookup | Throws

definition strategy_returns :: "state \<Rightarrow> jsval \<Rightarrow> jsval \<Rightarrow> bool" where
  "strategy_returns s c v =
     (if ToBoolean (ReactInstanceMap_get s c)
      then call (injectedFindNode s) (ReactInstanceMap_get s c) = Inr v
      else call (injectedFindRootNodeID s) c = Inr v)"

fun observed :: "state \<Rightarrow> jsval \<Rightarrow> exn + jsval \<Rightarrow> observable \<Rightarrow> bool" where
  "observed s c r ReturnsNull = ((c = JNull \<or> c = JUndefined) \<and> r = Inr JNull)"
| "observed s c r ReturnsInput = (typeof c = ''number'' \<and> r = Inr c)"
| "observed s c r ReturnsLookup =
     (c \<noteq> JNull \<and> c \<noteq> JUndefined \<and> typeof c \<noteq> ''number'' \<and>
      (case r of Inl e \<Rightarrow> False | Inr v \<Rightarrow> strategy_returns s c v))"
| "observed s c r Throws = isl r"

text \<open>The lookups among the events of a call, in the order they were made.\<close>

fun is_lookup :: "event \<Rightarrow> bool" where
  "is_lookup (Warned format args) = False"
| "is_lookup e = True"

definition lookups :: "run \<Rightarrow> event list" where
  "lookups r = filter is_lookup (events r)"

section \<open>Warnings per owner\<close>

text \<open>
  A call warns when it prints a warning. \<open>warned_owners\<close> lists, for a sequence of actions,
  the current owner of each call that warned, in order.
\<close>

definition warns :: "run \<Rightarrow> bool" where
  "warns r = (filter (\<lambda>e. \<not> is_lookup e) (events r) \<noteq> [])"

fun warned_owners :: "env \<Rightarrow> state \<Rightarrow> action list \<Rightarrow> ref list" where
  "warned_owners env s [] = []"
| "warned_owners env s (Call c # as) =
     (case ReactCurrentOwner_current s of
        None \<Rightarrow> []
      | Some owner \<Rightarrow> if warns (findNodeHandle env s c) then [owner] else [])
     @ warned_owners env (step env s (Call c)) as"
| "warned_owners env s (a # as) = warned_owners env (step env s a) as"

text \<open>
  The flag of an owner is the \<^verbatim>\<open>_warnedAboutRefsInRender\<close> property of its flag holder, when
  that is an object; it is set when its value is truthy. The owners of a sequence of actions
  (the current owner at its start and the ones made current later) are well formed when the
  flag holder of each is an object, \<^verbatim>\<open>null\<close> or \<^verbatim>\<open>undefined\<close>: a component's fiber has
  its instance or nothing as \<^verbatim>\<open>stateNode\<close>, never a primitive value.
\<close>

fun object_ref :: "jsval \<Rightarrow> ref option" where
  "object_ref (JObject r) = Some r"
| "object_ref (JFunction r) = Some r"
| "object_ref v = None"

definition flag_set :: "heap \<Rightarrow> ref \<Rightarrow> bool" where
  "flag_set h owner =
     (case object_ref (flag_holder h owner) of
        None \<Rightarrow> False
      | Some r \<Rightarrow> ToBoolean (lookup (h r) ''_warnedAboutRefsInRender''))"

definition holder_well_formed :: "heap \<Rightarrow> ref \<Rightarrow> bool" where
  "holder_well_formed h owner =
     (flag_holder h owner = JNull \<or> flag_holder h owner = JUndefined \<or>
      object_ref (flag_holder h owner) \<noteq> None)"

fun later_owners :: "action list \<Rightarrow> ref list" where
  "later_owners [] = []"
| "later_owners (SetCurrentOwner (Some owner) # as) = owner # later_owners as"
| "later_owners (a # as) = later_owners as"

definition owners_well_formed :: "state \<Rightarrow> action list \<Rightarrow> bool" where
  "owners_well_formed s as =
     (\<forall>owner \<in> set_option (ReactCurrentOwner_current s) \<union> set (later_owners as).
        holder_well_formed (heap s) owner)"

text \<open>The heap after \<^verbatim>\<open>r._warnedAboutRefsInRender = true\<close>.\<close>

definition set_flag :: "heap \<Rightarrow> ref \<Rightarrow> heap" where
  "set_flag h r =
     h(r := (h r)\<lparr>own := put_own ''_warnedAboutRefsInRender'' (JBoolean True) (own (h r))\<rparr>)"

section \<open>Example states\<close>

text \<open>
  A heap with the objects of a small mounted tree:
  \<^item> 1: the fiber of a class component, \<^verbatim>\<open>{tag: 2, stateNode: <2>}\<close>;
  \<^item> 2: the instance of that class component, which inherits \<^verbatim>\<open>render\<close>;
  \<^item> 3: the fiber of a functional component, \<^verbatim>\<open>{tag: 1, stateNode: null}\<close>;
  \<^item> 4: a native view, \<^verbatim>\<open>{_nativeTag: 7}\<close>;
  \<^item> 5: an internal instance of the stack reconciler, \<^verbatim>\<open>{_warnedAboutRefsInRender: false}\<close>;
  \<^item> 6: the \<^verbatim>\<open>render\<close> function of object 2;
  \<^item> 8: the instance of a class component that is not mounted;
  \<^item> any other reference: an object without properties.
  The doubles \<open>1\<close>, \<open>2\<close>, \<open>7\<close> and \<open>42\<close> are \<open>0x3FF0000000000000\<close>,
  \<open>0x4000000000000000\<close>, \<open>0x401C000000000000\<close> and \<open>0x4045000000000000\<close>.
\<close>

definition example_heap :: heap where
  "example_heap =
     (\<lambda>r. \<lparr>own = [], inherited = Map.empty\<rparr>)
     (1 := \<lparr>own = [(''tag'', JNumber 0x4000000000000000), (''stateNode'', JObject 2)],
            inherited = Map.empty\<rparr>,
      2 := \<lparr>own = [(''props'', JObject 9)], inherited = [''render'' \<mapsto> JFunction 6]\<rparr>,
      3 := \<lparr>own = [(''tag'', JNumber 0x3FF0000000000000), (''stateNode'', JNull)],
            inherited = Map.empty\<rparr>,
      4 := \<lparr>own = [(''_nativeTag'', JNumber 0x401C000000000000)], inherited = Map.empty\<rparr>,
      5 := \<lparr>own = [(''_warnedAboutRefsInRender'', JBoolean False)], inherited = Map.empty\<rparr>,
      8 := \<lparr>own = [(''props'', JObject 9)], inherited = [''render'' \<mapsto> JFunction 6]\<rparr>)"

definition example_findNode :: strategy where
  "example_findNode internalInstance =
     (if internalInstance = JObject 1 then Inr (JNumber 0x4045000000000000) else Inr JNull)"

definition example_findRootNodeID :: strategy where
  "example_findRootNodeID component =
     (if component = JObject 4 then Inr (JNumber 0x401C000000000000) else Inr JUndefined)"

definition example_state :: state where
  "example_state =
     \<lparr>injectedFindNode = Some example_findNode,
      injectedFindRootNodeID = Some example_findRootNodeID,
      ReactCurrentOwner_current = None,
      ReactInstanceMap = [JObject 2 \<mapsto> JObject 1],
      heap = example_heap\<rparr>"

text \<open>The module as loaded, before any injection.\<close>

definition uninjected_state :: state where
  "uninjected_state = example_state\<lparr>injectedFindNode := None, injectedFindRootNodeID := None\<rparr>"

text \<open>While a class component (fiber 1) or a functional component (fiber 3) renders.\<close>

definition class_render_state :: state where
  "class_render_state = example_state\<lparr>ReactCurrentOwner_current := Some 1\<rparr>"

definition functional_render_state :: state where
  "functional_render_state = example_state\<lparr>ReactCurrentOwner_current := Some 3\<rparr>"

definition production :: env where
  "production = \<lparr>DEV = False, getComponentName = (\<lambda>r. None)\<rparr>"

definition development :: env where
  "development = \<lparr>DEV = True, getComponentName = (\<lambda>r. if r = 1 then Some ''Profile'' else None)\<rparr>"

text \<open>
  A sequence of actions: a first strategy is injected and used, a second one replaces it, and
  a number is resolved while the class component renders.
\<close>

definition example_actions :: "action list" where
  "example_actions =
     [InjectFindNode (\<lambda>i. Inr JNull), Call (JObject 2), InjectFindNode example_findNode,
      SetCurrentOwner (Some 1), Call (JNumber 0x401C000000000000), SetCurrentOwner None]"

text \<open>
  Calls while the class component (owner 1) renders, then with no owner, then again under
  owner 1, then under the stack instance 5.
\<close>

definition example_renders :: "action list" where
  "example_renders =
     [Call (JObject 2), SetCurrentOwner None, Call JNull, SetCurrentOwner (Some 1),
      Call (JObject 4), Call (JObject 2), SetCurrentOwner (Some 5),
      Call (JNumber 0x401C000000000000), Call JNull]"

section \<open>Basic facts\<close>

lemma typeof_number: "typeof c = ''number'' \<longleftrightarrow> (\<exists>d. c = JNumber d)"
  by (cases c) auto

subsection \<open>The development block\<close>

text \<open>
  The block changes nothing but the heap, prints nothing but warnings, and the only error
  it throws is a TypeError.
\<close>

lemma dev_block_production: "\<not> DEV env \<Longrightarrow> dev_block env s = (None, [], s)"
  by (simp add: dev_block_def)

lemma dev_block_no_owner:
  "ReactCurrentOwner_current s = None \<Longrightarrow> dev_block env s = (None, [], s)"
  by (simp add: dev_block_def)

lemma dev_block_frame:
  assumes "dev_block env s = (x, ws, s')"
  shows "injectedFindNode s' = injectedFindNode s"
    and "injectedFindRootNodeID s' = injectedFindRootNodeID s"
    and "ReactCurrentOwner_current s' = ReactCurrentOwner_current s"
    and "ReactInstanceMap s' = ReactInstanceMap s"
  using assms
  by (auto simp: dev_block_def Let_def split: if_splits option.splits sum.splits)

lemma dev_block_events:
  assumes "dev_block env s = (x, ws, s')"
  shows "filter is_lookup ws = []"
  using assms
  by (auto simp: dev_block_def Let_def warning_def split: if_splits option.splits sum.splits)

lemma dev_block_TypeError: "dev_block env s = (Some e, ws, s') \<Longrightarrow> e = TypeError"
  by (auto simp: dev_block_def Let_def split: if_splits option.splits sum.splits
      elim: Get.elims Put.elims)

lemma dev_completes_cases:
  assumes "fst (dev_block env s) = None"
  obtains ws s' where "dev_block env s = (None, ws, s')"
  using assms by (cases "dev_block env s") auto

text \<open>
  With an object as flag holder the block completes: it warns when the flag is falsy and
  writes the flag. With \<^verbatim>\<open>null\<close> or \<^verbatim>\<open>undefined\<close> as flag holder the read of line 68
  throws.
\<close>

lemma Get_object: "object_ref v = Some r \<Longrightarrow> Get h v p = Inr (lookup (h r) p)"
  by (cases v) auto

lemma Put_object:
  "object_ref v = Some r \<Longrightarrow>
     Put h v ''_warnedAboutRefsInRender'' (JBoolean True) = Inr (set_flag h r)"
  by (cases v) (auto simp: set_flag_def)

lemma Put_primitive: "object_ref v = None \<Longrightarrow> Put h v p w = Inl TypeError"
  by (cases v) auto

lemma Get_nullish: "v = JNull \<or> v = JUndefined \<Longrightarrow> Get h v p = Inl TypeError"
  by auto

lemma dev_block_object:
  assumes "DEV env" and "ReactCurrentOwner_current s = Some owner"
    and "object_ref (flag_holder (heap s) owner) = Some r"
  shows "dev_block env s =
           (None,
            warning (lookup (heap s r) ''_warnedAboutRefsInRender'') refs_in_render_format
              [component_name env owner],
            s\<lparr>heap := set_flag (heap s) r\<rparr>)"
  using assms by (simp add: dev_block_def Get_object Put_object)

lemma dev_block_nullish:
  assumes "DEV env" and "ReactCurrentOwner_current s = Some owner"
    and "flag_holder (heap s) owner = JNull \<or> flag_holder (heap s) owner = JUndefined"
  shows "dev_block env s = (Some TypeError, [], s)"
  using assms by (auto simp add: dev_block_def)

lemma dev_block_completes_iff:
  "fst (dev_block env s) = None \<longleftrightarrow>
     \<not> DEV env \<or> ReactCurrentOwner_current s = None \<or>
     (\<exists>owner r. ReactCurrentOwner_current s = Some owner \<and>
        object_ref (flag_holder (heap s) owner) = Some r)"
proof (cases "DEV env")
  case False
  then show ?thesis by (simp add: dev_block_production)
next
  case True
  show ?thesis
  proof (cases "ReactCurrentOwner_current s")
    case None
    then show ?thesis by (simp add: dev_block_no_owner)
  next
    case (Some owner)
    show ?thesis
    proof (cases "object_ref (flag_holder (heap s) owner)")
      case None
      then have "fst (dev_block env s) \<noteq> None"
        using True Some
        by (cases "Get (heap s) (flag_holder (heap s) owner) ''_warnedAboutRefsInRender''")
          (simp_all add: dev_block_def Put_primitive)
      with True Some None show ?thesis by simp
    next
      case r: (Some r)
      from dev_block_object [OF True Some r] True Some r show ?thesis by simp
    qed
  qed
qed

subsection \<open>The call\<close>

lemma not_found_throws: "not_found h c \<noteq> Inr v"
  by (auto simp: not_found_def invariant_def split: sum.splits)

lemma not_found_isl: "isl (not_found h c)"
  by (cases "not_found h c") (auto simp: not_found_throws)

lemma findNodeHandle_cases:
  "findNodeHandle env s c =
     (case dev_block env s of
        (Some e, ws, s') \<Rightarrow> \<lparr>outcome = Inl e, events = ws, final = s'\<rparr>
      | (None, ws, s') \<Rightarrow>
          if c = JNull \<or> c = JUndefined then \<lparr>outcome = Inr JNull, events = ws, final = s'\<rparr>
          else if typeof c = ''number'' then \<lparr>outcome = Inr c, events = ws, final = s'\<rparr>
          else \<lparr>outcome = fst (resolve s' c), events = ws @ snd (resolve s' c), final = s'\<rparr>)"
  by (simp add: findNodeHandle_def split: prod.splits option.splits)

lemma resolve_events:
  "snd (resolve s c) =
     (if ToBoolean (ReactInstanceMap_get s c)
      then [InstanceMapGet c, CallFindNode (ReactInstanceMap_get s c)]
      else [InstanceMapGet c, CallFindRootNodeID c])"
  by (simp add: resolve_def Let_def)

lemma resolve_outcome:
  "fst (resolve s c) =
     (if ToBoolean (ReactInstanceMap_get s c)
      then call (injectedFindNode s) (ReactInstanceMap_get s c)
      else (case call (injectedFindRootNodeID s) c of
              Inl e \<Rightarrow> Inl e
            | Inr rootNodeID \<Rightarrow>
                if ToBoolean rootNodeID then Inr rootNodeID else not_found (heap s) c))"
  by (simp add: resolve_def Let_def)

lemma resolve_returns:
  "fst (resolve s c) = Inr v \<Longrightarrow> strategy_returns s c v"
  by (auto simp: resolve_def Let_def strategy_returns_def not_found_throws split: sum.splits if_splits)

lemma strategy_returns_frame:
  assumes "injectedFindNode s' = injectedFindNode s"
    and "injectedFindRootNodeID s' = injectedFindRootNodeID s"
    and "ReactInstanceMap s' = ReactInstanceMap s"
  shows "strategy_returns s' c v = strategy_returns s c v"
  using assms by (simp add: strategy_returns_def ReactInstanceMap_get_def)

lemma findNodeHandle_component:
  assumes "dev_block env s = (None, ws, s')"
    and "c \<noteq> JNull" and "c \<noteq> JUndefined" and "typeof c \<noteq> ''number''"
  shows "outcome (findNodeHandle env s c) =
           (if ToBoolean (ReactInstanceMap_get s c)
            then call (injectedFindNode s) (ReactInstanceMap_get s c)
            else (case call (injectedFindRootNodeID s) c of
                    Inl e \<Rightarrow> Inl e
                  | Inr rootNodeID \<Rightarrow>
                      if ToBoolean rootNodeID then Inr rootNodeID else not_found (heap s') c))"
    and "events (findNodeHandle env s c) =
           ws @ (if ToBoolean (ReactInstanceMap_get s c)
                 then [InstanceMapGet c, CallFindNode (ReactInstanceMap_get s c)]
                 else [InstanceMapGet c, CallFindRootNodeID c])"
    and "final (findNodeHandle env s c) = s'"
  using assms dev_block_frame [OF assms(1)]
  by (simp_all add: findNodeHandle_cases resolve_outcome resolve_events ReactInstanceMap_get_def)

lemma findNodeHandle_dev_throws:
  assumes "dev_block env s = (Some e, ws, s')"
  shows "findNodeHandle env s c = \<lparr>outcome = Inl TypeError, events = ws, final = s'\<rparr>"
  using assms dev_block_TypeError [OF assms] by (simp add: findNodeHandle_cases)

lemma findNodeHandle_final:
  "final (findNodeHandle env s c) = snd (snd (dev_block env s))"
proof (cases "dev_block env s")
  case (fields x ws s')
  then show ?thesis by (cases x) (simp_all add: findNodeHandle_cases)
qed

lemma findNodeHandle_slots:
  "injectedFindNode (final (findNodeHandle env s c)) = injectedFindNode s"
  "injectedFindRootNodeID (final (findNodeHandle env s c)) = injectedFindRootNodeID s"
proof -
  obtain x ws s' where d: "dev_block env s = (x, ws, s')" by (cases "dev_block env s")
  then have "final (findNodeHandle env s c) = s'" by (simp add: findNodeHandle_final)
  then show "injectedFindNode (final (findNodeHandle env s c)) = injectedFindNode s"
    "injectedFindRootNodeID (final (findNodeHandle env s c)) = injectedFindRootNodeID s"
    using dev_block_frame [OF d] by simp_all
qed

subsection \<open>Evaluating the examples\<close>

lemmas model_defs =
  findNodeHandle_def dev_block_def resolve_def not_found_def is_component_def is_native_def
  is_composite_def invariant_def warning_def flag_holder_def isFiber_def lookup_def
  component_name_def ReactInstanceMap_get_def number_is_falsy_def

lemmas example_defs =
  example_state_def example_heap_def example_findNode_def example_findRootNodeID_def
  uninjected_state_def class_render_state_def functional_render_state_def production_def
  development_def

section \<open>The outcomes of a call (C1)\<close>

lemma observed_some: "\<exists>k. observed s c (outcome (findNodeHandle env s c)) k"
proof (cases "dev_block env s")
  case (fields x ws s')
  note fr = dev_block_frame [OF fields]
  show ?thesis
  proof (cases x)
    case (Some e)
    with fields have "observed s c (outcome (findNodeHandle env s c)) Throws"
      by (simp add: findNodeHandle_cases)
    then show ?thesis ..
  next
    case None
    show ?thesis
    proof (cases "c = JNull \<or> c = JUndefined")
      case True
      with fields None have "observed s c (outcome (findNodeHandle env s c)) ReturnsNull"
        by (auto simp add: findNodeHandle_cases)
      then show ?thesis ..
    next
      case nn: False
      show ?thesis
      proof (cases "typeof c = ''number''")
        case True
        with fields None nn have "observed s c (outcome (findNodeHandle env s c)) ReturnsInput"
          by (simp add: findNodeHandle_cases)
        then show ?thesis ..
      next
        case False
        with fields None nn have out: "outcome (findNodeHandle env s c) = fst (resolve s' c)"
          by (simp add: findNodeHandle_cases)
        show ?thesis
        proof (cases "fst (resolve s' c)")
          case (Inl e)
          with out have "observed s c (outcome (findNodeHandle env s c)) Throws" by simp
          then show ?thesis ..
        next
          case (Inr v)
          then have "strategy_returns s' c v" by (rule resolve_returns)
          then have "strategy_returns s c v"
            by (simp add: strategy_returns_frame [OF fr(1) fr(2) fr(4)])
          with out Inr nn False
          have "observed s c (outcome (findNodeHandle env s c)) ReturnsLookup" by simp
          then show ?thesis ..
        qed
      qed
    qed
  qed
qed

lemma observed_unique: "observed s c r k \<Longrightarrow> observed s c r k' \<Longrightarrow> k = k'"
  by (cases k; cases k'; cases r) (auto simp: typeof_number)

text \<open>
  C1. Every call has exactly one of the four outcomes of \<open>observable\<close>: it returns
  \<^verbatim>\<open>null\<close> for an argument that is \<^verbatim>\<open>null\<close> or \<^verbatim>\<open>undefined\<close>, it returns its
  argument when that is a number, it returns what an injected lookup strategy returned for a
  component, or it throws. This holds in every state, in development and in production mode.
\<close>

theorem findNodeHandle_outcomes:
  "\<exists>!k. observed s c (outcome (findNodeHandle env s c)) k"
  using observed_some observed_unique by blast

theorem findNodeHandle_outcomes_witness:
  "(\<exists>!k. observed example_state (JObject 2)
            (outcome (findNodeHandle production example_state (JObject 2))) k) \<and>
   observed example_state (JObject 2)
     (outcome (findNodeHandle production example_state (JObject 2))) ReturnsLookup \<and>
   outcome (findNodeHandle production example_state (JObject 2)) = Inr (JNumber 0x4045000000000000)"
proof (intro conjI)
  show "\<exists>!k. observed example_state (JObject 2)
            (outcome (findNodeHandle production example_state (JObject 2))) k"
    by (rule findNodeHandle_outcomes)
  show "outcome (findNodeHandle production example_state (JObject 2)) = Inr (JNumber 0x4045000000000000)"
    by (simp add: model_defs example_defs)
  then show "observed example_state (JObject 2)
     (outcome (findNodeHandle production example_state (JObject 2))) ReturnsLookup"
    by (simp add: strategy_returns_def ReactInstanceMap_get_def example_defs)
qed

section \<open>The internal instance branch (C2)\<close>

lemma findNodeHandle_internal_instance:
  assumes "fst (dev_block env s) = None"
    and "c \<noteq> JNull" and "c \<noteq> JUndefined" and "typeof c \<noteq> ''number''"
    and "ToBoolean (ReactInstanceMap_get s c)"
  shows "outcome (findNodeHandle env s c) = call (injectedFindNode s) (ReactInstanceMap_get s c)"
proof -
  from assms(1) obtain ws s' where d: "dev_block env s = (None, ws, s')"
    by (rule dev_completes_cases)
  from findNodeHandle_component(1) [OF d assms(2-4)] assms(5) show ?thesis by simp
qed

text \<open>
  C2. While a functional component renders in development mode, its fiber is the current
  owner and has \<^verbatim>\<open>stateNode: null\<close>. Component 2 has the truthy internal instance 1 in the
  instance map, and the injected \<^verbatim>\<open>findNode\<close> returns 42 for it: in production mode the
  call returns 42, in development mode it throws a TypeError at line 68, before any lookup.
  (Lemma \<open>findNodeHandle_internal_instance\<close>: whenever the development block completes, the
  call returns exactly what \<^verbatim>\<open>findNode\<close> gives for the internal instance.)
\<close>

theorem internal_instance_in_functional_render:
  "ReactInstanceMap_get functional_render_state (JObject 2) = JObject 1 \<and>
   call (injectedFindNode functional_render_state) (JObject 1) = Inr (JNumber 0x4045000000000000) \<and>
   outcome (findNodeHandle production functional_render_state (JObject 2)) =
     Inr (JNumber 0x4045000000000000) \<and>
   outcome (findNodeHandle development functional_render_state (JObject 2)) = Inl TypeError"
  by (simp add: model_defs example_defs)

section \<open>The failure branch (C3)\<close>

lemma is_component_total:
  assumes "c \<noteq> JNull" and "c \<noteq> JUndefined"
  shows "\<exists>b. is_component h c = Inr b"
  using assms
  by (cases c) (auto simp: is_component_def is_native_def is_composite_def split: sum.splits bool.splits)

lemma Object_keys_total:
  assumes "c \<noteq> JNull" and "c \<noteq> JUndefined"
  shows "\<exists>ks. Object_keys h c = Inr ks"
  using assms by (cases c) auto

lemma not_found_message:
  assumes "is_component h c = Inr b" and "Object_keys h c = Inr ks"
  shows "not_found h c =
           Inl (if b then Invariant_Violation unmounted_format []
                else Invariant_Violation not_a_component_format [AString (typeof c), AStrings ks])"
  using assms by (simp add: not_found_def invariant_def)

lemma formats_differ: "not_a_component_format \<noteq> unmounted_format"
  by (simp add: not_a_component_format_def unmounted_format_def)

lemma findNodeHandle_unresolved:
  assumes "fst (dev_block env s) = None"
    and "c \<noteq> JNull" and "c \<noteq> JUndefined" and "typeof c \<noteq> ''number''"
    and "\<not> ToBoolean (ReactInstanceMap_get s c)"
    and "call (injectedFindRootNodeID s) c = Inr v" and "\<not> ToBoolean v"
  shows "\<exists>b ks. is_component (heap (final (findNodeHandle env s c))) c = Inr b \<and>
           Object_keys (heap (final (findNodeHandle env s c))) c = Inr ks \<and>
           outcome (findNodeHandle env s c) =
             Inl (if b then Invariant_Violation unmounted_format []
                  else Invariant_Violation not_a_component_format
                         [AString (typeof c), AStrings ks])"
proof -
  from assms(1) obtain ws s' where d: "dev_block env s = (None, ws, s')"
    by (rule dev_completes_cases)
  note f = findNodeHandle_component [OF d assms(2-4)]
  obtain b where b: "is_component (heap s') c = Inr b"
    using is_component_total [OF assms(2,3)] by blast
  obtain ks where ks: "Object_keys (heap s') c = Inr ks"
    using Object_keys_total [OF assms(2,3)] by blast
  have "outcome (findNodeHandle env s c) = not_found (heap s') c"
    using f(1) assms(5-7) by simp
  with b ks f(3) show ?thesis by (simp add: not_found_message)
qed

text \<open>
  C3. Object 7 (no property) and object 8 (an instance with \<^verbatim>\<open>render\<close>) have no internal
  instance, and \<^verbatim>\<open>findRootNodeID\<close> returns \<^verbatim>\<open>undefined\<close> for both. In production mode the
  call throws the Invariant Violation `Argument is not a component' for 7 and `Unable to find
  node handle for unmounted component' for 8; while a functional component renders in
  development mode it throws a TypeError for both instead.
  (Lemma \<open>findNodeHandle_unresolved\<close>: whenever the development block completes, the call
  throws the Invariant Violation the claim names.)
\<close>

theorem unresolved_in_functional_render:
  "ReactInstanceMap_get functional_render_state (JObject 7) = JUndefined \<and>
   call (injectedFindRootNodeID functional_render_state) (JObject 7) = Inr JUndefined \<and>
   outcome (findNodeHandle production functional_render_state (JObject 7)) =
     Inl (Invariant_Violation not_a_component_format [AString ''object'', AStrings []]) \<and>
   outcome (findNodeHandle production functional_render_state (JObject 8)) =
     Inl (Invariant_Violation unmounted_format []) \<and>
   outcome (findNodeHandle development functional_render_state (JObject 7)) = Inl TypeError \<and>
   outcome (findNodeHandle development functional_render_state (JObject 8)) = Inl TypeError"
  by (simp add: model_defs example_defs)

section \<open>The order of the lookups (C4)\<close>

lemma findNodeHandle_lookup_order:
  assumes "fst (dev_block env s) = None"
    and "c \<noteq> JNull" and "c \<noteq> JUndefined" and "typeof c \<noteq> ''number''"
  shows "lookups (findNodeHandle env s c) =
           (if ToBoolean (ReactInstanceMap_get s c)
            then [InstanceMapGet c, CallFindNode (ReactInstanceMap_get s c)]
            else [InstanceMapGet c, CallFindRootNodeID c])"
    and "\<not> ToBoolean (ReactInstanceMap_get s c) \<Longrightarrow>
           call (injectedFindRootNodeID s) c = Inr v \<Longrightarrow> ToBoolean v \<Longrightarrow>
           outcome (findNodeHandle env s c) = Inr v"
    and "ToBoolean (ReactInstanceMap_get s c) \<Longrightarrow>
           outcome (findNodeHandle env s c) =
             call (injectedFindNode s) (ReactInstanceMap_get s c)"
proof -
  from assms(1) obtain ws s' where d: "dev_block env s = (None, ws, s')"
    by (rule dev_completes_cases)
  have ws: "filter is_lookup ws = []" using d by (rule dev_block_events)
  note f = findNodeHandle_component [OF d assms(2-4)]
  show "lookups (findNodeHandle env s c) =
           (if ToBoolean (ReactInstanceMap_get s c)
            then [InstanceMapGet c, CallFindNode (ReactInstanceMap_get s c)]
            else [InstanceMapGet c, CallFindRootNodeID c])"
    using ws by (simp add: f(2) lookups_def)
  show "outcome (findNodeHandle env s c) = Inr v"
    if "\<not> ToBoolean (ReactInstanceMap_get s c)"
      and "call (injectedFindRootNodeID s) c = Inr v" and "ToBoolean v"
    using that by (simp add: f(1))
  show "outcome (findNodeHandle env s c) = call (injectedFindNode s) (ReactInstanceMap_get s c)"
    if "ToBoolean (ReactInstanceMap_get s c)"
    using that by (simp add: f(1))
qed

text \<open>
  C4. The native view 4 has no internal instance, and the injected \<^verbatim>\<open>findRootNodeID\<close>
  returns the truthy 7 for it. In production mode the call reads the instance map, then calls
  \<^verbatim>\<open>findRootNodeID\<close>, and returns 7; while a functional component renders in development
  mode the call makes no lookup at all and throws a TypeError at line 68.
  (Lemma \<open>findNodeHandle_lookup_order\<close>: whenever the development block completes, the
  call reads the instance map first and then calls one strategy, \<^verbatim>\<open>findNode\<close> when the map
  gave a truthy internal instance and \<^verbatim>\<open>findRootNodeID\<close> otherwise, whose truthy answer
  is the result.)
\<close>

theorem lookup_order_in_functional_render:
  "ReactInstanceMap_get functional_render_state (JObject 4) = JUndefined \<and>
   call (injectedFindRootNodeID functional_render_state) (JObject 4) =
     Inr (JNumber 0x401C000000000000) \<and>
   ToBoolean (JNumber 0x401C000000000000) \<and>
   lookups (findNodeHandle production functional_render_state (JObject 4)) =
     [InstanceMapGet (JObject 4), CallFindRootNodeID (JObject 4)] \<and>
   outcome (findNodeHandle production functional_render_state (JObject 4)) =
     Inr (JNumber 0x401C000000000000) \<and>
   findNodeHandle development functional_render_state (JObject 4) =
     \<lparr>outcome = Inl TypeError, events = [], final = functional_render_state\<rparr>"
  by (simp add: lookups_def model_defs example_defs)

section \<open>Numbers (C5)\<close>

lemma findNodeHandle_number:
  assumes "fst (dev_block env s) = None"
  shows "outcome (findNodeHandle env s (JNumber d)) = Inr (JNumber d)"
  using assms by (cases "dev_block env s") (simp add: findNodeHandle_cases)

text \<open>
  C5. The number 7 is returned as it is in production mode; while a functional component
  renders in development mode, the call throws a TypeError instead.
  (Lemma \<open>findNodeHandle_number\<close>: whenever the development block completes, a number is
  returned as it is.)
\<close>

theorem number_in_functional_render:
  "outcome (findNodeHandle production functional_render_state (JNumber 0x401C000000000000)) =
     Inr (JNumber 0x401C000000000000) \<and>
   outcome (findNodeHandle development functional_render_state (JNumber 0x401C000000000000)) =
     Inl TypeError"
  by (simp add: model_defs example_defs)

section \<open>Null and undefined (C6)\<close>

lemma findNodeHandle_nullish:
  assumes "fst (dev_block env s) = None" and "c = JNull \<or> c = JUndefined"
  shows "outcome (findNodeHandle env s c) = Inr JNull"
    and "lookups (findNodeHandle env s c) = []"
  using assms dev_block_events [of env s]
  by (cases "dev_block env s"; auto simp add: findNodeHandle_cases lookups_def)+

text \<open>
  C6. For \<^verbatim>\<open>null\<close> the call returns \<^verbatim>\<open>null\<close> in production mode; while a functional
  component renders in development mode, the call throws a TypeError for \<^verbatim>\<open>null\<close> and for
  \<^verbatim>\<open>undefined\<close>.
  (Lemma \<open>findNodeHandle_nullish\<close>: whenever the development block completes, the call
  returns \<^verbatim>\<open>null\<close> and makes no lookup.)
\<close>

theorem null_in_functional_render:
  "outcome (findNodeHandle production functional_render_state JNull) = Inr JNull \<and>
   outcome (findNodeHandle development functional_render_state JNull) = Inl TypeError \<and>
   outcome (findNodeHandle development functional_render_state JUndefined) = Inl TypeError"
  by (simp add: model_defs example_defs)

section \<open>The warning (C7)\<close>

lemma map_of_put_own: "map_of (put_own p v ps) q = (if q = p then Some v else map_of ps q)"
  by (induction ps) auto

lemma lookup_put_own:
  "lookup (obj\<lparr>own := put_own p v (own obj)\<rparr>) q = (if q = p then v else lookup obj q)"
  by (simp add: lookup_def map_of_put_own split: option.splits)

lemma lookup_set_flag:
  "lookup (set_flag h r r') q =
     (if r' = r \<and> q = ''_warnedAboutRefsInRender'' then JBoolean True else lookup (h r') q)"
  by (simp add: set_flag_def lookup_put_own)

lemma flag_holder_set_flag: "flag_holder (set_flag h r) owner = flag_holder h owner"
  by (simp add: flag_holder_def isFiber_def lookup_set_flag)

lemma flag_set_set_flag: "flag_set h owner \<Longrightarrow> flag_set (set_flag h r) owner"
  by (auto simp add: flag_set_def flag_holder_set_flag lookup_set_flag split: option.splits)

lemma flag_set_after:
  "object_ref (flag_holder h owner) = Some r \<Longrightarrow> flag_set (set_flag h r) owner"
  by (simp add: flag_set_def flag_holder_set_flag lookup_set_flag)

lemma holder_well_formed_set_flag:
  "holder_well_formed (set_flag h r) owner = holder_well_formed h owner"
  by (simp add: holder_well_formed_def flag_holder_set_flag)

lemma warns_iff:
  "warns (findNodeHandle env s c) = (filter (\<lambda>e. \<not> is_lookup e) (fst (snd (dev_block env s))) \<noteq> [])"
proof (cases "dev_block env s")
  case (fields x ws s')
  then show ?thesis
    by (cases x) (auto simp add: warns_def findNodeHandle_cases resolve_events)
qed

text \<open>One call, by the three kinds of owner.\<close>

lemma call_effect:
  assumes "\<forall>owner \<in> set_option (ReactCurrentOwner_current s). holder_well_formed (heap s) owner"
  shows "(\<not> warns (findNodeHandle env s c) \<and> final (findNodeHandle env s c) = s) \<or>
         (\<exists>owner r. DEV env \<and> ReactCurrentOwner_current s = Some owner \<and>
            object_ref (flag_holder (heap s) owner) = Some r \<and>
            warns (findNodeHandle env s c) = (\<not> flag_set (heap s) owner) \<and>
            final (findNodeHandle env s c) = s\<lparr>heap := set_flag (heap s) r\<rparr>)"
proof (cases "DEV env")
  case False
  then show ?thesis by (simp add: warns_iff findNodeHandle_final dev_block_production)
next
  case True
  show ?thesis
  proof (cases "ReactCurrentOwner_current s")
    case None
    then show ?thesis by (simp add: warns_iff findNodeHandle_final dev_block_no_owner)
  next
    case (Some owner)
    show ?thesis
    proof (cases "object_ref (flag_holder (heap s) owner)")
      case None
      with assms Some
      have "flag_holder (heap s) owner = JNull \<or> flag_holder (heap s) owner = JUndefined"
        by (auto simp add: holder_well_formed_def)
      from dev_block_nullish [OF True Some this] show ?thesis
        by (simp add: warns_iff findNodeHandle_final)
    next
      case r: (Some r)
      from dev_block_object [OF True Some r] True Some r show ?thesis
        by (simp add: warns_iff findNodeHandle_final warning_def flag_set_def)
    qed
  qed
qed

lemma step_heap:
  "heap (step env s a) = heap s \<or> (\<exists>r. heap (step env s a) = set_flag (heap s) r)"
proof (cases a)
  case (Call c)
  obtain x ws s' where d: "dev_block env s = (x, ws, s')" by (cases "dev_block env s")
  then have "heap s' = heap s \<or> (\<exists>r. heap s' = set_flag (heap s) r)"
    by (auto simp add: dev_block_def Let_def set_flag_def
        split: if_splits option.splits sum.splits elim!: Put.elims)
  with d Call show ?thesis by (simp add: findNodeHandle_final)
qed (simp_all add: injectFindNode_def injectFindRootNodeID_def)

lemma step_holder_well_formed:
  "holder_well_formed (heap (step env s a)) owner = holder_well_formed (heap s) owner"
  using step_heap [of env s a] by (auto simp add: holder_well_formed_set_flag)

lemma step_flag_set: "flag_set (heap s) owner \<Longrightarrow> flag_set (heap (step env s a)) owner"
  using step_heap [of env s a] by (auto simp add: flag_set_set_flag)

lemma step_owner:
  "set_option (ReactCurrentOwner_current (step env s a)) \<union> set (later_owners as)
     \<subseteq> set_option (ReactCurrentOwner_current s) \<union> set (later_owners (a # as))"
proof (cases a)
  case (Call c)
  obtain x ws s' where d: "dev_block env s = (x, ws, s')" by (cases "dev_block env s")
  with Call dev_block_frame(3) [OF d] show ?thesis by (simp add: findNodeHandle_final)
next
  case (SetCurrentOwner ow)
  then show ?thesis by (cases ow) auto
qed (simp_all add: injectFindNode_def injectFindRootNodeID_def)

lemma step_owners_well_formed:
  assumes "owners_well_formed s (a # as)"
  shows "owners_well_formed (step env s a) as"
  unfolding owners_well_formed_def
proof
  fix owner
  assume "owner \<in> set_option (ReactCurrentOwner_current (step env s a)) \<union> set (later_owners as)"
  with step_owner have "owner \<in> set_option (ReactCurrentOwner_current s) \<union> set (later_owners (a # as))"
    by blast
  with assms have "holder_well_formed (heap s) owner" by (simp add: owners_well_formed_def)
  then show "holder_well_formed (heap (step env s a)) owner"
    by (simp add: step_holder_well_formed)
qed

lemma warned_owners_invariant:
  "owners_well_formed s as \<Longrightarrow>
     distinct (warned_owners env s as) \<and>
     (\<forall>owner \<in> set (warned_owners env s as). \<not> flag_set (heap s) owner)"
proof (induction as arbitrary: s)
  case Nil
  then show ?case by simp
next
  case (Cons a as)
  let ?s' = "step env s a"
  have wf': "owners_well_formed ?s' as" using Cons.prems by (rule step_owners_well_formed)
  note IH = Cons.IH [OF wf']
  have mono: "\<And>owner. owner \<in> set (warned_owners env ?s' as) \<Longrightarrow> \<not> flag_set (heap s) owner"
    using IH step_flag_set by blast
  show ?case
  proof (cases a)
    case (Call c)
    have "\<forall>owner \<in> set_option (ReactCurrentOwner_current s). holder_well_formed (heap s) owner"
      using Cons.prems by (simp add: owners_well_formed_def)
    from call_effect [OF this, of env c]
    show ?thesis
    proof
      assume "\<not> warns (findNodeHandle env s c) \<and> final (findNodeHandle env s c) = s"
      with Call IH mono show ?thesis by (auto split: option.splits)
    next
      assume "\<exists>owner r. DEV env \<and> ReactCurrentOwner_current s = Some owner \<and>
            object_ref (flag_holder (heap s) owner) = Some r \<and>
            warns (findNodeHandle env s c) = (\<not> flag_set (heap s) owner) \<and>
            final (findNodeHandle env s c) = s\<lparr>heap := set_flag (heap s) r\<rparr>"
      then obtain owner r where o: "ReactCurrentOwner_current s = Some owner"
        and r: "object_ref (flag_holder (heap s) owner) = Some r"
        and w: "warns (findNodeHandle env s c) = (\<not> flag_set (heap s) owner)"
        and f: "final (findNodeHandle env s c) = s\<lparr>heap := set_flag (heap s) r\<rparr>"
        by blast
      have "flag_set (heap ?s') owner" using Call f r by (simp add: flag_set_after)
      with IH have "owner \<notin> set (warned_owners env ?s' as)" by blast
      with Call o w IH mono show ?thesis by auto
    qed
  next
    case (InjectFindNode f)
    with IH mono show ?thesis by simp
  next
    case (InjectFindRootNodeID g)
    with IH mono show ?thesis by simp
  next
    case (SetCurrentOwner ow)
    with IH mono show ?thesis by simp
  qed
qed

lemma warnings_object:
  assumes "DEV env" and "ReactCurrentOwner_current s = Some owner"
    and "object_ref (flag_holder (heap s) owner) = Some r"
  shows "filter (\<lambda>e. \<not> is_lookup e) (events (findNodeHandle env s c)) =
           (if flag_set (heap s) owner then []
            else [Warned refs_in_render_format [component_name env owner]])"
    and "final (findNodeHandle env s c) = s\<lparr>heap := set_flag (heap s) r\<rparr>"
proof -
  note d = dev_block_object [OF assms]
  show "final (findNodeHandle env s c) = s\<lparr>heap := set_flag (heap s) r\<rparr>"
    by (simp add: findNodeHandle_final d)
  show "filter (\<lambda>e. \<not> is_lookup e) (events (findNodeHandle env s c)) =
           (if flag_set (heap s) owner then []
            else [Warned refs_in_render_format [component_name env owner]])"
    using assms(3) by (simp add: findNodeHandle_cases d resolve_events warning_def flag_set_def)
qed

lemma warns_only_in_dev:
  assumes "warns (findNodeHandle env s c)"
  shows "DEV env \<and> (\<exists>owner. ReactCurrentOwner_current s = Some owner \<and> \<not> flag_set (heap s) owner)"
proof -
  from assms have w: "filter (\<lambda>e. \<not> is_lookup e) (fst (snd (dev_block env s))) \<noteq> []"
    by (simp add: warns_iff)
  have dev: "DEV env"
  proof (rule ccontr)
    assume "\<not> DEV env"
    with w show False by (simp add: dev_block_production)
  qed
  from w obtain owner where o: "ReactCurrentOwner_current s = Some owner"
    by (cases "ReactCurrentOwner_current s") (auto simp add: dev_block_no_owner)
  have "\<not> flag_set (heap s) owner"
  proof (cases "object_ref (flag_holder (heap s) owner)")
    case None
    then show ?thesis by (simp add: flag_set_def)
  next
    case (Some r)
    from w dev_block_object [OF dev o Some] show ?thesis
      by (auto simp add: warning_def flag_set_def Some split: if_splits)
  qed
  with dev o show ?thesis by blast
qed

text \<open>
  C7, as amended. A call warns only in development mode, with a current owner whose flag is
  not set. In development mode, when the flag holder of the current owner is an object, the
  call prints the warning exactly when the flag is not set, and the flag is set afterwards.
  Hence no owner is warned twice in any sequence of calls, injections and changes of owner
  whose owners are well formed. In production mode, or without a current owner, no call
  warns.
\<close>

theorem warned_at_most_once:
  "(warns (findNodeHandle env s c) \<longrightarrow>
      DEV env \<and> (\<exists>owner. ReactCurrentOwner_current s = Some owner \<and> \<not> flag_set (heap s) owner)) \<and>
   (DEV env \<longrightarrow> ReactCurrentOwner_current s = Some owner \<longrightarrow>
      object_ref (flag_holder (heap s) owner) = Some r \<longrightarrow>
      filter (\<lambda>e. \<not> is_lookup e) (events (findNodeHandle env s c)) =
        (if flag_set (heap s) owner then []
         else [Warned refs_in_render_format [component_name env owner]]) \<and>
      flag_set (heap (final (findNodeHandle env s c))) owner) \<and>
   (owners_well_formed s as \<longrightarrow> distinct (warned_owners env s as)) \<and>
   (\<not> DEV env \<or> ReactCurrentOwner_current s = None \<longrightarrow> \<not> warns (findNodeHandle env s c))"
proof (intro conjI impI)
  assume "warns (findNodeHandle env s c)"
  then show "DEV env" "\<exists>owner. ReactCurrentOwner_current s = Some owner \<and> \<not> flag_set (heap s) owner"
    using warns_only_in_dev by blast+
next
  assume a: "DEV env" "ReactCurrentOwner_current s = Some owner"
    "object_ref (flag_holder (heap s) owner) = Some r"
  note w = warnings_object [OF a]
  show "filter (\<lambda>e. \<not> is_lookup e) (events (findNodeHandle env s c)) =
        (if flag_set (heap s) owner then []
         else [Warned refs_in_render_format [component_name env owner]])"
    by (rule w(1))
  show "flag_set (heap (final (findNodeHandle env s c))) owner"
    using a(3) by (simp add: w(2) flag_set_after)
next
  assume "owners_well_formed s as"
  then show "distinct (warned_owners env s as)"
    using warned_owners_invariant by blast
next
  assume "\<not> DEV env \<or> ReactCurrentOwner_current s = None"
  then show "\<not> warns (findNodeHandle env s c)"
    using warns_only_in_dev by fastforce
qed

lemma example_owners_well_formed: "owners_well_formed class_render_state example_renders"
  by (simp add: owners_well_formed_def holder_well_formed_def flag_holder_def isFiber_def
      lookup_def example_renders_def example_defs)

theorem warned_at_most_once_witness:
  "filter (\<lambda>e. \<not> is_lookup e) (events (findNodeHandle development class_render_state (JObject 2))) =
     [Warned refs_in_render_format [''Profile'']] \<and>
   flag_set (heap (final (findNodeHandle development class_render_state (JObject 2)))) 1 \<and>
   distinct (warned_owners development class_render_state example_renders) \<and>
   warned_owners development class_render_state example_renders = [1, 5] \<and>
   \<not> warns (findNodeHandle production class_render_state (JObject 2))"
proof -
  note t = warned_at_most_once [of development class_render_state "JObject 2" 1 2 example_renders]
  note p = warned_at_most_once [of production class_render_state "JObject 2"]
  have h: "DEV development" "ReactCurrentOwner_current class_render_state = Some 1"
    "object_ref (flag_holder (heap class_render_state) 1) = Some 2"
    "\<not> flag_set (heap class_render_state) 1"
    "component_name development 1 = ''Profile''"
    by (simp_all add: model_defs example_defs flag_set_def)
  have wf: "owners_well_formed class_render_state example_renders"
    by (rule example_owners_well_formed)
  have np: "\<not> DEV production" by (simp add: production_def)
  have l: "warned_owners development class_render_state example_renders = [1, 5]"
    by (simp add: example_renders_def warns_def model_defs example_defs)
  from t h wf p np l show ?thesis by simp
qed

text \<open>
  C7 as stated fails for an owner that has no flag holder: with the fiber of a functional
  component as current owner, no flag is set after the call.
\<close>

theorem no_flag_in_functional_render:
  "DEV development \<and>
   ReactCurrentOwner_current functional_render_state = Some 3 \<and>
   flag_holder (heap functional_render_state) 3 = JNull \<and>
   \<not> flag_set (heap (final (findNodeHandle development functional_render_state (JObject 2)))) 3 \<and>
   findNodeHandle development functional_render_state (JObject 2) =
     \<lparr>outcome = Inl TypeError, events = [], final = functional_render_state\<rparr>"
  by (simp add: model_defs example_defs flag_set_def)

section \<open>Injection (C8)\<close>

lemma exec_slots:
  "injectedFindNode (exec env s as) = latest_findNode (injectedFindNode s) as"
  "injectedFindRootNodeID (exec env s as) = latest_findRootNodeID (injectedFindRootNodeID s) as"
proof (induction as arbitrary: s)
  case Nil
  { case 1 show ?case by simp }
  { case 2 show ?case by simp }
next
  case (Cons a as)
  { case 1 show ?case
      by (cases a) (simp_all add: Cons.IH(1) findNodeHandle_slots injectFindNode_def
          injectFindRootNodeID_def) }
  { case 2 show ?case
      by (cases a) (simp_all add: Cons.IH(2) findNodeHandle_slots injectFindNode_def
          injectFindRootNodeID_def) }
qed

text \<open>
  C8. \<^verbatim>\<open>injectFindNode\<close> sets the \<^verbatim>\<open>findNode\<close> slot and leaves the \<^verbatim>\<open>findRootNodeID\<close>
  slot alone, and \<^verbatim>\<open>injectFindRootNodeID\<close> the other way round. After any sequence of
  injections, calls and changes of owner, each slot holds the strategy injected last (calls
  do not touch the slots), and a call that reaches its lookups computes its result with these
  strategies.
\<close>

theorem injection_replaces_one_slot:
  "injectedFindNode (injectFindNode f s) = Some f \<and>
   injectedFindRootNodeID (injectFindNode f s) = injectedFindRootNodeID s \<and>
   injectedFindRootNodeID (injectFindRootNodeID g s) = Some g \<and>
   injectedFindNode (injectFindRootNodeID g s) = injectedFindNode s \<and>
   injectedFindNode (exec env s as) = latest_findNode (injectedFindNode s) as \<and>
   injectedFindRootNodeID (exec env s as) = latest_findRootNodeID (injectedFindRootNodeID s) as \<and>
   (\<forall>c. c \<noteq> JNull \<longrightarrow> c \<noteq> JUndefined \<longrightarrow> typeof c \<noteq> ''number'' \<longrightarrow>
        fst (dev_block env (exec env s as)) = None \<longrightarrow>
        outcome (findNodeHandle env (exec env s as) c) =
          (if ToBoolean (ReactInstanceMap_get (exec env s as) c)
           then call (latest_findNode (injectedFindNode s) as)
                  (ReactInstanceMap_get (exec env s as) c)
           else (case call (latest_findRootNodeID (injectedFindRootNodeID s) as) c of
                   Inl e \<Rightarrow> Inl e
                 | Inr rootNodeID \<Rightarrow>
                     if ToBoolean rootNodeID then Inr rootNodeID
                     else not_found (heap (final (findNodeHandle env (exec env s as) c))) c)))"
proof -
  have "outcome (findNodeHandle env (exec env s as) c) =
          (if ToBoolean (ReactInstanceMap_get (exec env s as) c)
           then call (latest_findNode (injectedFindNode s) as)
                  (ReactInstanceMap_get (exec env s as) c)
           else (case call (latest_findRootNodeID (injectedFindRootNodeID s) as) c of
                   Inl e \<Rightarrow> Inl e
                 | Inr rootNodeID \<Rightarrow>
                     if ToBoolean rootNodeID then Inr rootNodeID
                     else not_found (heap (final (findNodeHandle env (exec env s as) c))) c))"
    if c: "c \<noteq> JNull" "c \<noteq> JUndefined" "typeof c \<noteq> ''number''"
      and d: "fst (dev_block env (exec env s as)) = None" for c
  proof -
    from d obtain ws s' where d': "dev_block env (exec env s as) = (None, ws, s')"
      by (rule dev_completes_cases)
    note f = findNodeHandle_component [OF d' c]
    show ?thesis by (simp only: f exec_slots)
  qed
  then show ?thesis
    by (simp add: exec_slots injectFindNode_def injectFindRootNodeID_def)
qed

theorem injection_replaces_one_slot_witness:
  "injectedFindNode (exec production uninjected_state example_actions) = Some example_findNode \<and>
   injectedFindRootNodeID (exec production uninjected_state example_actions) = None \<and>
   outcome (findNodeHandle production (exec production uninjected_state example_actions) (JObject 2)) =
     Inr (JNumber 0x4045000000000000)"
proof -
  let ?s = "exec production uninjected_state example_actions"
  note t = injection_replaces_one_slot [of _ uninjected_state _ production example_actions]
  have l: "latest_findNode (injectedFindNode uninjected_state) example_actions = Some example_findNode"
    "latest_findRootNodeID (injectedFindRootNodeID uninjected_state) example_actions = None"
    by (simp_all add: example_actions_def uninjected_state_def)
  have d: "fst (dev_block production ?s) = None"
    by (simp add: dev_block_production production_def)
  have "?s = uninjected_state\<lparr>injectedFindNode := Some example_findNode\<rparr>"
    by (simp add: example_actions_def findNodeHandle_final dev_block_production production_def
        injectFindNode_def uninjected_state_def example_state_def)
  then have i: "ReactInstanceMap_get ?s (JObject 2) = JObject 1"
    by (simp add: ReactInstanceMap_get_def example_defs)
  have c: "JObject 2 \<noteq> JNull" "JObject 2 \<noteq> JUndefined" "typeof (JObject 2) \<noteq> ''number''"
    by simp_all
  from t l have s1: "injectedFindNode ?s = Some example_findNode" by simp
  from t l have s2: "injectedFindRootNodeID ?s = None" by simp
  from t c d have "outcome (findNodeHandle production ?s (JObject 2)) =
      (if ToBoolean (ReactInstanceMap_get ?s (JObject 2))
       then call (latest_findNode (injectedFindNode uninjected_state) example_actions)
              (ReactInstanceMap_get ?s (JObject 2))
       else (case call (latest_findRootNodeID (injectedFindRootNodeID uninjected_state)
                    example_actions) (JObject 2) of
               Inl e \<Rightarrow> Inl e
             | Inr rootNodeID \<Rightarrow>
                 if ToBoolean rootNodeID then Inr rootNodeID
                 else not_found (heap (final (findNodeHandle production ?s (JObject 2)))) (JObject 2)))"
    by blast
  with i l have "outcome (findNodeHandle production ?s (JObject 2)) = Inr (JNumber 0x4045000000000000)"
    by (simp add: example_findNode_def)
  with s1 s2 show ?thesis by simp
qed

section \<open>The production build (C9)\<close>

text \<open>
  C9. In production mode a call leaves the whole state as it found it: the heap (with the
  argument and every \<^verbatim>\<open>_warnedAboutRefsInRender\<close> flag in it), the instance map, the two
  strategy slots and the current owner; and it prints no warning. So a call that changes the
  state, which can only be the write of that flag, runs in development mode.
\<close>

theorem production_mutates_nothing:
  "\<not> DEV env \<Longrightarrow>
     final (findNodeHandle env s c) = s \<and>
     (\<forall>e \<in> set (events (findNodeHandle env s c)). is_lookup e)"
  by (simp add: findNodeHandle_cases dev_block_production resolve_events)

theorem production_mutates_nothing_witness:
  "\<not> DEV production \<and>
   final (findNodeHandle production functional_render_state (JObject 2)) = functional_render_state \<and>
   final (findNodeHandle development class_render_state (JObject 2)) \<noteq> class_render_state"
proof -
  have p: "\<not> DEV production" by (simp add: production_def)
  have "heap (final (findNodeHandle development class_render_state (JObject 2))) 2 \<noteq>
        heap class_render_state 2"
    by (simp add: model_defs example_defs)
  then have "final (findNodeHandle development class_render_state (JObject 2)) \<noteq> class_render_state"
    by auto
  with p production_mutates_nothing [OF p, of functional_render_state "JObject 2"]
  show ?thesis by simp
qed

section \<open>Calls before injection (C10)\<close>

text \<open>
  C10. For an argument that is neither \<^verbatim>\<open>null\<close>, \<^verbatim>\<open>undefined\<close> nor a number: when the
  slot its branch calls (\<^verbatim>\<open>injectedFindNode\<close> if the instance map gives a truthy internal
  instance, \<^verbatim>\<open>injectedFindRootNodeID\<close> otherwise) was never injected, the call throws a
  TypeError; it neither returns nor throws an Invariant Violation. Unless the development
  block threw first, the last thing the call did was to invoke that empty slot.
\<close>

theorem uninjected_call_is_type_error:
  assumes "c \<noteq> JNull" and "c \<noteq> JUndefined" and "typeof c \<noteq> ''number''"
    and "(if ToBoolean (ReactInstanceMap_get s c) then injectedFindNode s
          else injectedFindRootNodeID s) = None"
  shows "outcome (findNodeHandle env s c) = Inl TypeError \<and>
         (fst (dev_block env s) = None \<longrightarrow>
            last (events (findNodeHandle env s c)) =
              (if ToBoolean (ReactInstanceMap_get s c)
               then CallFindNode (ReactInstanceMap_get s c)
               else CallFindRootNodeID c))"
proof (cases "dev_block env s")
  case (fields x ws s')
  show ?thesis
  proof (cases x)
    case (Some e)
    with fields show ?thesis by (simp add: findNodeHandle_dev_throws)
  next
    case None
    with fields have d: "dev_block env s = (None, ws, s')" by simp
    note f = findNodeHandle_component [OF d assms(1-3)]
    from assms(4) show ?thesis
      by (auto simp add: f split: if_splits)
  qed
qed

theorem uninjected_call_is_type_error_witness:
  "outcome (findNodeHandle production uninjected_state (JObject 2)) = Inl TypeError \<and>
   last (events (findNodeHandle production uninjected_state (JObject 2))) = CallFindNode (JObject 1) \<and>
   outcome (findNodeHandle production uninjected_state (JObject 4)) = Inl TypeError \<and>
   last (events (findNodeHandle production uninjected_state (JObject 4))) =
     CallFindRootNodeID (JObject 4)"
proof -
  have c: "JObject 4 \<noteq> JNull" "JObject 4 \<noteq> JUndefined" "typeof (JObject 4) \<noteq> ''number''"
    "JObject 2 \<noteq> JNull" "JObject 2 \<noteq> JUndefined" "typeof (JObject 2) \<noteq> ''number''"
    by simp_all
  have i: "ReactInstanceMap_get uninjected_state (JObject 4) = JUndefined"
    "ReactInstanceMap_get uninjected_state (JObject 2) = JObject 1"
    by (simp_all add: model_defs example_defs)
  have n: "injectedFindNode uninjected_state = None" "injectedFindRootNodeID uninjected_state = None"
    by (simp_all add: example_defs)
  have d: "fst (dev_block production uninjected_state) = None"
    by (simp add: dev_block_production production_def)
  have h4: "(if ToBoolean (ReactInstanceMap_get uninjected_state (JObject 4))
             then injectedFindNode uninjected_state
             else injectedFindRootNodeID uninjected_state) = None"
    using i n by simp
  have h2: "(if ToBoolean (ReactInstanceMap_get uninjected_state (JObject 2))
             then injectedFindNode uninjected_state
             else injectedFindRootNodeID uninjected_state) = None"
    using i n by simp
  from uninjected_call_is_type_error [OF c(1-3) h4, of production]
    uninjected_call_is_type_error [OF c(4-6) h2, of production] d i
  show ?thesis by simp
qed

end
